theory Spec2Isabelle
  imports Complex_Main
begin

section \<open>Values of the validator\<close>

text \<open>
  The validator (\<^verbatim>\<open>src/lib/validation.ts\<close>) works on values of unknown shape that come
  out of a JSON, XML or CSV parser: scalars, arrays and objects with string keys.
  An object is an association list in the order of its own properties; reading a key
  that is absent gives \<open>JUndefined\<close>, as a property read does.

  Numbers are rationals: the arithmetic of the validator (products, sums, division by one
  hundred, \<^verbatim>\<open>Math.round\<close>) is carried out exactly, where the program uses IEEE doubles.
  The two agree on the small integers and two-decimal amounts used in the examples below.

  A text is the list of the bytes of its UTF-8 encoding, so a character outside ASCII
  takes two to four places. The validator measures and cuts only texts of ASCII digits.
\<close>

datatype jv =
    JUndefined
  | JNull
  | JBool bool
  | JNum rat
  | JStr string
  | JArr "jv list"
  | JObj "(string \<times> jv) list"

datatype error = TypeError | SyntaxError

text \<open>\<^verbatim>\<open>isObject\<close>: not null, of type object, and not an array.\<close>

fun isObject :: "jv \<Rightarrow> bool" where
  "isObject (JObj kvs) = True"
| "isObject v = False"

fun isArray :: "jv \<Rightarrow> bool" where
  "isArray (JArr xs) = True"
| "isArray v = False"

fun getKey :: "(string \<times> jv) list \<Rightarrow> string \<Rightarrow> jv" where
  "getKey [] k = JUndefined"
| "getKey ((k', v) # kvs) k = (if k' = k then v else getKey kvs k)"

definition hasKey :: "(string \<times> jv) list \<Rightarrow> string \<Rightarrow> bool" where
  "hasKey kvs k = (k \<in> set (map fst kvs))"

text \<open>\<^verbatim>\<open>toRecord(v)[k]\<close>: a property read that gives undefined on a non-object.\<close>

fun propOf :: "jv \<Rightarrow> string \<Rightarrow> jv" where
  "propOf (JObj kvs) k = getKey kvs k"
| "propOf v k = JUndefined"

text \<open>Assignment \<^verbatim>\<open>obj[k] = v\<close> on the property list: in place when the key exists, appended otherwise.\<close>

fun setKey :: "(string \<times> jv) list \<Rightarrow> string \<Rightarrow> jv \<Rightarrow> (string \<times> jv) list" where
  "setKey [] k v = [(k, v)]"
| "setKey ((k', v') # kvs) k v = (if k' = k then (k, v) # kvs else (k', v') # setKey kvs k v)"

text \<open>Truthiness, as tested by \<^verbatim>\<open>if (x)\<close>, \<^verbatim>\<open>!x\<close> and \<^verbatim>\<open>a || b\<close>.\<close>

fun truthy :: "jv \<Rightarrow> bool" where
  "truthy JUndefined = False"
| "truthy JNull = False"
| "truthy (JBool b) = b"
| "truthy (JNum n) = (n \<noteq> 0)"
| "truthy (JStr s) = (s \<noteq> [])"
| "truthy (JArr xs) = True"
| "truthy (JObj kvs) = True"

definition orJS :: "jv \<Rightarrow> jv \<Rightarrow> jv" where
  "orJS a b = (if truthy a then a else b)"

definition nullish :: "jv \<Rightarrow> bool" where
  "nullish v = (v = JUndefined \<or> v = JNull)"

definition coalesce :: "jv \<Rightarrow> jv \<Rightarrow> jv" where
  "coalesce a b = (if nullish a then b else a)"

section \<open>Text of numbers and values\<close>

definition isDigit :: "char \<Rightarrow> bool" where
  "isDigit c = (c \<in> set ''0123456789'')"

definition digitChar :: "nat \<Rightarrow> char" where
  "digitChar n = ''0123456789'' ! (n mod 10)"

definition digitVal :: "char \<Rightarrow> nat" where
  "digitVal c = (case map_of (zip ''0123456789'' [0..<10]) c of Some d \<Rightarrow> d | None \<Rightarrow> 0)"

text \<open>The decimal digits of an integer that is not negative, and the integer of a text of digits.\<close>

function digitsOf :: "int \<Rightarrow> string" where
  "digitsOf n =
     (if n < 10 then [digitChar (nat n)] else digitsOf (n div 10) @ [digitChar (nat (n mod 10))])"
  by pat_completeness auto

termination
  by (relation "measure nat") auto

declare digitsOf.simps [simp del]

definition natToString :: "nat \<Rightarrow> string" where
  "natToString n = digitsOf (int n)"

definition digitsToInt :: "string \<Rightarrow> int" where
  "digitsToInt ds = foldl (\<lambda>a c. 10 * a + int (digitVal c)) 0 ds"

text \<open>
  The decimal digits after the point of a fraction in \<open>[0, 1)\<close>, by long division, at
  most as many as the bound says.
\<close>

fun fracDigits :: "nat \<Rightarrow> rat \<Rightarrow> string" where
  "fracDigits 0 f = []"
| "fracDigits (Suc k) f =
     (if f = 0 then []
      else (let d = \<lfloor>f * 10\<rfloor> in digitChar (nat d) # fracDigits k (f * 10 - of_int d)))"

text \<open>
  \<^verbatim>\<open>String(n)\<close> for a number follows \<^verbatim>\<open>Number::toString\<close> of the language: with the
  significant digits \<open>s\<close> of the number, \<open>k\<close> of them, and the decimal exponent \<open>n\<close>
  (so that the number is \<open>0.s\<close> times \<open>10^n\<close>), an integer below \<open>10^21\<close> prints its
  digits and zeros, a number with \<open>0 < n \<le> 21\<close> prints a point after \<open>n\<close> digits, one with
  \<open>-6 < n \<le> 0\<close> prints \<^verbatim>\<open>0.\<close>, zeros and the digits, and every other number prints in
  exponent notation, as in \<^verbatim>\<open>1e+21\<close> and \<^verbatim>\<open>1.5e-7\<close>. A number prints at most 17
  significant digits; the model cuts the exact expansion there, where the program
  prints the shortest digits that read back as the same double.
\<close>

fun leadingZeros :: "nat \<Rightarrow> rat \<Rightarrow> nat" where
  "leadingZeros 0 a = 0"
| "leadingZeros (Suc k) a = (if a * 10 \<ge> 1 then 0 else Suc (leadingZeros k (a * 10)))"

definition decimalExponent :: "rat \<Rightarrow> int" where
  "decimalExponent a =
     (if a \<ge> 1 then int (length (digitsOf \<lfloor>a\<rfloor>)) else - int (leadingZeros 400 a))"

definition significand :: "rat \<Rightarrow> int \<Rightarrow> string" where
  "significand a n =
     (let f = (if n \<ge> 0 then a / 10 ^ nat n else a * 10 ^ nat (- n))
      in rev (dropWhile (\<lambda>c. c = CHR ''0'') (rev (fracDigits 17 f))))"

definition numToString :: "rat \<Rightarrow> string" where
  "numToString q =
     (if q = 0 then ''0''
      else
        (let a = \<bar>q\<bar>;
             n = decimalExponent a;
             s = significand a n;
             k = int (length s)
         in (if q < 0 then ''-'' else [])
            @ (if k \<le> n \<and> n \<le> 21 then s @ replicate (nat (n - k)) (CHR ''0'')
               else if 0 < n \<and> n \<le> 21 then take (nat n) s @ ''.'' @ drop (nat n) s
               else if - 6 < n \<and> n \<le> 0 then ''0.'' @ replicate (nat (- n)) (CHR ''0'') @ s
               else (if k = 1 then s else take 1 s @ ''.'' @ drop 1 s)
                    @ ''e'' @ (if n - 1 < 0 then ''-'' else ''+'') @ digitsOf \<bar>n - 1\<bar>)))"

text \<open>
  \<^verbatim>\<open>String(v)\<close>. On an object it calls \<^verbatim>\<open>toString\<close>: the inherited one answers
  \<^verbatim>\<open>[object Object]\<close>; an own property of that name (never a function in parsed data)
  hides it, and the conversion throws a TypeError. On an array it joins the elements
  with commas, undefined and null giving the empty text.
\<close>

fun toStringJS :: "jv \<Rightarrow> error + string"
  and joinJS :: "jv list \<Rightarrow> error + string" where
  "toStringJS JUndefined = Inr ''undefined''"
| "toStringJS JNull = Inr ''null''"
| "toStringJS (JBool b) = Inr (if b then ''true'' else ''false'')"
| "toStringJS (JNum n) = Inr (numToString n)"
| "toStringJS (JStr s) = Inr s"
| "toStringJS (JArr xs) = joinJS xs"
| "toStringJS (JObj kvs) = (if hasKey kvs ''toString'' then Inl TypeError else Inr ''[object Object]'')"
| "joinJS [] = Inr []"
| "joinJS (x # xs) =
     (case (if x = JUndefined \<or> x = JNull then Inr [] else toStringJS x) of
        Inl e \<Rightarrow> Inl e
      | Inr s \<Rightarrow> (if xs = [] then Inr s
                 else (case joinJS xs of Inl e \<Rightarrow> Inl e | Inr r \<Rightarrow> Inr (s @ '','' @ r))))"

definition hexChar :: "nat \<Rightarrow> char" where
  "hexChar n = ''0123456789abcdef'' ! (n mod 16)"

definition escapeChar :: "char \<Rightarrow> string" where
  "escapeChar c =
     (if c = CHR ''\"'' then [CHR 0x5C, CHR ''\"'']
      else if c = CHR 0x5C then [CHR 0x5C, CHR 0x5C]
      else if c = CHR 0x08 then [CHR 0x5C, CHR ''b'']
      else if c = CHR 0x09 then [CHR 0x5C, CHR ''t'']
      else if c = CHR 0x0A then [CHR 0x5C, CHR ''n'']
      else if c = CHR 0x0C then [CHR 0x5C, CHR ''f'']
      else if c = CHR 0x0D then [CHR 0x5C, CHR ''r'']
      else if (of_char c :: nat) < 32
        then [CHR 0x5C, CHR ''u'', CHR ''0'', CHR ''0''] @ [hexChar (of_char c div 16), hexChar (of_char c)]
      else [c])"

definition quoteJSON :: "string \<Rightarrow> string" where
  "quoteJSON s = CHR ''\"'' # concat (map escapeChar s) @ [CHR ''\"'']"

text \<open>
  \<^verbatim>\<open>JSON.stringify(v)\<close> for a value other than undefined: an undefined array element is
  written \<^verbatim>\<open>null\<close>, an undefined property is left out.
\<close>

fun jsonText :: "jv \<Rightarrow> string"
  and jsonElems :: "jv list \<Rightarrow> string"
  and jsonProps :: "(string \<times> jv) list \<Rightarrow> string list" where
  "jsonText JUndefined = ''null''"
| "jsonText JNull = ''null''"
| "jsonText (JBool b) = (if b then ''true'' else ''false'')"
| "jsonText (JNum n) = numToString n"
| "jsonText (JStr s) = quoteJSON s"
| "jsonText (JArr xs) = ''['' @ jsonElems xs @ '']''"
| "jsonText (JObj kvs) = ''{'' @ concat (jsonProps kvs) @ ''}''"
| "jsonElems [] = []"
| "jsonElems (x # xs) = jsonText x @ (if xs = [] then [] else '','' @ jsonElems xs)"
| "jsonProps [] = []"
| "jsonProps ((k, v) # kvs) =
     (if v = JUndefined then jsonProps kvs
      else (let rest = jsonProps kvs
            in (quoteJSON k @ '':'' @ jsonText v @ (if rest = [] then [] else '','')) # rest))"

text \<open>
  The deep clone \<^verbatim>\<open>JSON.parse(JSON.stringify(v))\<close>, as the value that is parsed back:
  undefined elements become null, undefined properties disappear. The text of undefined
  itself is no JSON, and parsing it throws a SyntaxError.
\<close>

fun cloneVal :: "jv \<Rightarrow> jv" where
  "cloneVal JUndefined = JNull"
| "cloneVal (JArr xs) = JArr (map cloneVal xs)"
| "cloneVal (JObj kvs) =
     JObj (map (\<lambda>(k, v). (k, cloneVal v)) (filter (\<lambda>(k, v). v \<noteq> JUndefined) kvs))"
| "cloneVal v = v"

definition jsonClone :: "jv \<Rightarrow> error + jv" where
  "jsonClone v = (if v = JUndefined then Inl SyntaxError else Inr (cloneVal v))"

section \<open>Field normalizers\<close>

datatype confidence = High | Medium | Low

definition padEnd :: "nat \<Rightarrow> char \<Rightarrow> string \<Rightarrow> string" where
  "padEnd n c s = s @ replicate (n - length s) c"

definition padStart :: "nat \<Rightarrow> char \<Rightarrow> string \<Rightarrow> string" where
  "padStart n c s = replicate (n - length s) c @ s"

text \<open>The text that \<^verbatim>\<open>normalizeTpin\<close> and \<^verbatim>\<open>normalizeDate\<close> make of a value that is neither null nor undefined.\<close>

fun stringValueOf :: "jv \<Rightarrow> string" where
  "stringValueOf (JStr s) = s"
| "stringValueOf (JNum n) = numToString n"
| "stringValueOf v = jsonText v"

definition normalizeTpin :: "jv \<Rightarrow> string \<times> confidence" where
  "normalizeTpin value =
     (if value = JNull \<or> value = JUndefined then (''0000000000'', Low)
      else
        (let stringValue = stringValueOf value;
             cleaned = filter isDigit stringValue
         in if length cleaned = 10 then (cleaned, High)
            else if length cleaned = 9 then (CHR ''0'' # cleaned, Medium)
            else if length cleaned > 10 then (take 10 cleaned, Medium)
            else if length cleaned \<ge> 6 then (padEnd 10 (CHR ''0'') cleaned, Low)
            else (''0000000000'', Low)))"

text \<open>
  \<^verbatim>\<open>parseFloat\<close> on a text made of digits, points, minus signs and carets only (what the
  cleaning step of \<^verbatim>\<open>parseNumber\<close> leaves): an optional minus sign, digits, and a point with
  digits; the longest such prefix counts, and without any digit the result is NaN
  (\<open>None\<close>).
\<close>

definition parseFloatJS :: "string \<Rightarrow> rat option" where
  "parseFloatJS s =
     (let neg = (s \<noteq> [] \<and> hd s = CHR ''-'');
          r = (if neg then tl s else s);
          ip = takeWhile isDigit r;
          r1 = dropWhile isDigit r;
          fp = (if r1 \<noteq> [] \<and> hd r1 = CHR ''.'' then takeWhile isDigit (tl r1) else [])
      in if ip = [] \<and> fp = [] then None
         else Some ((if neg then - 1 else 1)
                    * (of_int (digitsToInt ip) + of_int (digitsToInt fp) / 10 ^ length fp)))"

text \<open>The class \<^verbatim>\<open>[^^\d.-]\<close> of the cleaning step removes every character that is not a caret, a digit, a point or a minus sign.\<close>

definition keptByCleaning :: "char \<Rightarrow> bool" where
  "keptByCleaning c = (c = CHR ''^'' \<or> isDigit c \<or> c = CHR ''.'' \<or> c = CHR ''-'')"

definition parseNumber :: "jv \<Rightarrow> error + rat option" where
  "parseNumber value =
     (case value of
        JNum n \<Rightarrow> Inr (Some n)
      | JNull \<Rightarrow> Inr None
      | JUndefined \<Rightarrow> Inr None
      | _ \<Rightarrow> (case toStringJS value of Inl e \<Rightarrow> Inl e | Inr str \<Rightarrow> Inr (parseFloatJS (filter keptByCleaning str))))"


subsection \<open>Dates\<close>

text \<open>
  The current moment is a parameter: \<open>nowMs\<close> is what \<^verbatim>\<open>new Date().getTime()\<close> gives
  (milliseconds since the epoch, UTC) and \<open>fullYear\<close> what \<^verbatim>\<open>new Date().getFullYear()\<close>
  gives (the year in the local time zone). One call of \<^verbatim>\<open>normalizeDate\<close> reads the clock
  up to three times; the model gives it one instant.
\<close>

record clock =
  nowMs :: int
  fullYear :: int

text \<open>Days since 1970-01-01 of a day of the proleptic Gregorian calendar, and back.\<close>

definition daysFromCivil :: "int \<Rightarrow> int \<Rightarrow> int \<Rightarrow> int" where
  "daysFromCivil y m d =
     (let y' = (if m \<le> 2 then y - 1 else y);
          era = y' div 400;
          yoe = y' - era * 400;
          doy = (153 * (if m > 2 then m - 3 else m + 9) + 2) div 5 + d - 1;
          doe = yoe * 365 + yoe div 4 - yoe div 100 + doy
      in era * 146097 + doe - 719468)"

definition civilFromDays :: "int \<Rightarrow> int \<times> int \<times> int" where
  "civilFromDays z =
     (let z' = z + 719468;
          era = z' div 146097;
          doe = z' - era * 146097;
          yoe = (doe - doe div 1460 + doe div 36524 - doe div 146096) div 365;
          doy = doe - (365 * yoe + yoe div 4 - yoe div 100);
          mp = (5 * doy + 2) div 153;
          d = doy - (153 * mp + 2) div 5 + 1;
          m = (if mp < 10 then mp + 3 else mp - 9)
      in (yoe + era * 400 + (if m \<le> 2 then 1 else 0), m, d))"

text \<open>\<^verbatim>\<open>toISOString().split('T')[0]\<close> of an instant (for the years 0 to 9999, which print with four digits).\<close>

definition isoDateOfMs :: "int \<Rightarrow> string" where
  "isoDateOfMs ms =
     (case civilFromDays (ms div 86400000) of
        (y, m, d) \<Rightarrow>
          padStart 4 (CHR ''0'') (digitsOf y) @ ''-''
          @ padStart 2 (CHR ''0'') (digitsOf m) @ ''-''
          @ padStart 2 (CHR ''0'') (digitsOf d))"

definition todayISO :: "clock \<Rightarrow> string" where
  "todayISO clk = isoDateOfMs (nowMs clk)"

text \<open>
  \<^verbatim>\<open>new Date("YYYY-MM-DD").getTime()\<close> on four, two and two digits: midnight UTC of that day,
  or NaN (\<open>None\<close>) when the month is not 1 to 12 or the day not 1 to 31. A day from 29 to
  31 that the month does not have rolls over into the next month, as in V8 (on which the
  repository's tests run); other engines answer NaN there.
\<close>

definition dateMs :: "string \<Rightarrow> string \<Rightarrow> string \<Rightarrow> int option" where
  "dateMs year month day =
     (let y = digitsToInt year; m = digitsToInt month; d = digitsToInt day
      in if 1 \<le> m \<and> m \<le> 12 \<and> 1 \<le> d \<and> d \<le> 31
         then Some (daysFromCivil y m d * 86400000) else None)"

text \<open>
  One of the five patterns: three groups of digits, each with its least and greatest
  length, between two copies of a separator, anchored at both ends. The flag says
  whether the year comes first.
\<close>

record dateFormat =
  sep :: char
  len1 :: "nat \<times> nat"
  len2 :: "nat \<times> nat"
  len3 :: "nat \<times> nat"
  yearFirst :: bool

definition formats :: "dateFormat list" where
  "formats =
     [\<lparr>sep = CHR ''-'', len1 = (4, 4), len2 = (1, 2), len3 = (1, 2), yearFirst = True\<rparr>,
      \<lparr>sep = CHR ''/'', len1 = (2, 2), len2 = (1, 2), len3 = (4, 4), yearFirst = False\<rparr>,
      \<lparr>sep = CHR ''-'', len1 = (1, 2), len2 = (1, 2), len3 = (4, 4), yearFirst = False\<rparr>,
      \<lparr>sep = CHR ''/'', len1 = (4, 4), len2 = (1, 2), len3 = (1, 2), yearFirst = True\<rparr>,
      \<lparr>sep = CHR ''.'', len1 = (1, 2), len2 = (1, 2), len3 = (4, 4), yearFirst = False\<rparr>]"

definition lenIn :: "nat \<times> nat \<Rightarrow> string \<Rightarrow> bool" where
  "lenIn r g = (fst r \<le> length g \<and> length g \<le> snd r)"

definition matchFormat :: "dateFormat \<Rightarrow> string \<Rightarrow> (string \<times> string \<times> string) option" where
  "matchFormat f s =
     (let g1 = takeWhile isDigit s; r1 = dropWhile isDigit s
      in if \<not> lenIn (len1 f) g1 \<or> r1 = [] \<or> hd r1 \<noteq> sep f then None
         else
           (let g2 = takeWhile isDigit (tl r1); r2 = dropWhile isDigit (tl r1)
            in if \<not> lenIn (len2 f) g2 \<or> r2 = [] \<or> hd r2 \<noteq> sep f then None
               else
                 (let g3 = takeWhile isDigit (tl r2); r3 = dropWhile isDigit (tl r2)
                  in if \<not> lenIn (len3 f) g3 \<or> r3 \<noteq> [] then None
                     else Some (g1, g2, g3))))"

text \<open>
  \<^verbatim>\<open>trim()\<close> removes white space and line terminators from both ends: the tab, line
  feed, vertical tab, form feed, carriage return and space of ASCII, the no-break space
  U+00A0, U+1680, U+2000 to U+200A, the line and paragraph separators U+2028 and U+2029,
  U+202F, U+205F, U+3000 and the byte order mark U+FEFF. Here is each of them as the
  bytes of its UTF-8 encoding.
\<close>

definition whiteSpace :: "string list" where
  "whiteSpace =
     map (\<lambda>c. [c]) [CHR 0x09, CHR 0x0A, CHR 0x0B, CHR 0x0C, CHR 0x0D, CHR 0x20]
     @ [[CHR 0xC2, CHR 0xA0], [CHR 0xE1, CHR 0x9A, CHR 0x80]]
     @ map (\<lambda>c. [CHR 0xE2, CHR 0x80, c])
         [CHR 0x80, CHR 0x81, CHR 0x82, CHR 0x83, CHR 0x84, CHR 0x85, CHR 0x86, CHR 0x87,
          CHR 0x88, CHR 0x89, CHR 0x8A, CHR 0xA8, CHR 0xA9, CHR 0xAF]
     @ [[CHR 0xE2, CHR 0x81, CHR 0x9F], [CHR 0xE3, CHR 0x80, CHR 0x80],
        [CHR 0xEF, CHR 0xBB, CHR 0xBF]]"

definition isSpace :: "string \<Rightarrow> bool" where
  "isSpace w = (w \<in> set whiteSpace)"

fun trimStart :: "string \<Rightarrow> string" where
  "trimStart (a # b # c # s) =
     (if isSpace [a] then trimStart (b # c # s)
      else if isSpace [a, b] then trimStart (c # s)
      else if isSpace [a, b, c] then trimStart s
      else a # b # c # s)"
| "trimStart [a, b] =
     (if isSpace [a] then trimStart [b] else if isSpace [a, b] then [] else [a, b])"
| "trimStart [a] = (if isSpace [a] then [] else [a])"
| "trimStart [] = []"

text \<open>The same from the end, on the reversed text.\<close>

fun trimEndRev :: "string \<Rightarrow> string" where
  "trimEndRev (c # b # a # s) =
     (if isSpace [c] then trimEndRev (b # a # s)
      else if isSpace [b, c] then trimEndRev (a # s)
      else if isSpace [a, b, c] then trimEndRev s
      else c # b # a # s)"
| "trimEndRev [c, b] =
     (if isSpace [c] then trimEndRev [b] else if isSpace [b, c] then [] else [c, b])"
| "trimEndRev [c] = (if isSpace [c] then [] else [c])"
| "trimEndRev [] = []"

definition trim :: "string \<Rightarrow> string" where
  "trim s = rev (trimEndRev (rev (trimStart s)))"

text \<open>The loop over the patterns: the first one that matches and passes the checks returns.\<close>

fun tryFormats :: "clock \<Rightarrow> dateFormat list \<Rightarrow> string \<Rightarrow> string option" where
  "tryFormats clk [] s = None"
| "tryFormats clk (f # fs) s =
     (case matchFormat f s of
        None \<Rightarrow> tryFormats clk fs s
      | Some (a, month, c) \<Rightarrow>
          (let year = (if yearFirst f then a else c);
               day = (if yearFirst f then c else a);
               normalized = year @ ''-'' @ padStart 2 (CHR ''0'') month @ ''-'' @ padStart 2 (CHR ''0'') day
           in case dateMs year (padStart 2 (CHR ''0'') month) (padStart 2 (CHR ''0'') day) of
                None \<Rightarrow> tryFormats clk fs s
              | Some t \<Rightarrow>
                  (if t \<le> nowMs clk \<and> 2000 \<le> digitsToInt year
                      \<and> digitsToInt year \<le> fullYear clk + 1
                   then Some normalized
                   else tryFormats clk fs s)))"

definition normalizeDate :: "clock \<Rightarrow> jv \<Rightarrow> string \<times> confidence" where
  "normalizeDate clk value =
     (if value = JNull \<or> value = JUndefined then (todayISO clk, Low)
      else
        (let stringValue = trim (stringValueOf value)
         in case tryFormats clk formats stringValue of
              Some normalized \<Rightarrow> (normalized, High)
            | None \<Rightarrow>
                (if list_all isDigit stringValue \<and> 10 \<le> length stringValue \<and> length stringValue \<le> 13
                 then
                   (let timestamp = digitsToInt stringValue;
                        ms = (if length (digitsOf timestamp) = 10 then timestamp * 1000
                              else timestamp)
                    in (isoDateOfMs ms, Medium))
                 else (todayISO clk, Low))))"


section \<open>Issues and results\<close>

datatype severity = Error | Warning | Info

datatype category = Tpin | DateCat | Vat | Amount | Mandatory | Duplicate | Currency | Schema

record issue =
  severity :: severity
  field :: string
  message :: string
  originalValue :: jv
  fixedValue :: jv
  autoFixed :: bool
  confidence :: confidence
  category :: category

record validationResult =
  isValid :: bool
  issues :: "issue list"
  originalData :: jv
  fixedData :: jv

text \<open>The locators \<^verbatim>\<open>`${name} (Record ${index + 1})`\<close> and \<^verbatim>\<open>`${name} (Record ${index + 1}, Line ${lineIndex + 1})`\<close>.\<close>

definition recordLoc :: "string \<Rightarrow> nat \<Rightarrow> string" where
  "recordLoc name index = name @ '' (Record '' @ natToString (index + 1) @ '')''"

definition lineLoc :: "string \<Rightarrow> nat \<Rightarrow> nat \<Rightarrow> string" where
  "lineLoc name index lineIndex =
     name @ '' (Record '' @ natToString (index + 1) @ '', Line '' @ natToString (lineIndex + 1) @ '')''"

section \<open>The objects a record's validation can reach\<close>

text \<open>
  Objects and arrays are references in the program, and the validation of one record
  holds references into two object graphs: the original record and its deep clone, the
  fixed record. Both are trees, so an object is addressed by the path that leads to it
  from its root, and the store is the pair of trees. The program also stores references
  to objects of the original into the fixed record; \<open>links\<close> lists these slots of the
  fixed tree with the original object each one holds. A read or an assignment through
  such a slot is a read or an assignment of the original object.
\<close>

datatype sel = Key string | Idx nat

type_synonym path = "sel list"

datatype region = Orig | Fixed

record store =
  origT :: jv
  fixedT :: jv
  links :: "(path \<times> path) list"

fun child :: "jv \<Rightarrow> sel \<Rightarrow> jv" where
  "child (JObj kvs) (Key k) = getKey kvs k"
| "child (JArr xs) (Idx i) = (if i < length xs then xs ! i else JUndefined)"
| "child v s = JUndefined"

fun valueAt :: "jv \<Rightarrow> path \<Rightarrow> jv" where
  "valueAt t [] = t"
| "valueAt t (s # p) = valueAt (child t s) p"

fun putAt :: "jv \<Rightarrow> path \<Rightarrow> jv \<Rightarrow> jv" where
  "putAt t [] v = v"
| "putAt (JObj kvs) (Key k # p) v = JObj (setKey kvs k (putAt (getKey kvs k) p v))"
| "putAt (JArr xs) (Idx i # p) v = (if i < length xs then JArr (xs[i := putAt (xs ! i) p v]) else JArr xs)"
| "putAt t (s # p) v = t"

definition isPrefix :: "path \<Rightarrow> path \<Rightarrow> bool" where
  "isPrefix a p = (take (length a) p = a)"

fun resolve :: "(path \<times> path) list \<Rightarrow> path \<Rightarrow> region \<times> path" where
  "resolve [] p = (Fixed, p)"
| "resolve ((src, tgt) # ls) p =
     (if isPrefix src p then (Orig, tgt @ drop (length src) p) else resolve ls p)"

definition place :: "store \<Rightarrow> region \<times> path \<Rightarrow> region \<times> path" where
  "place st rp = (case rp of (Orig, p) \<Rightarrow> (Orig, p) | (Fixed, p) \<Rightarrow> resolve (links st) p)"

definition load :: "store \<Rightarrow> region \<times> path \<Rightarrow> jv" where
  "load st rp =
     (case place st rp of
        (Orig, q) \<Rightarrow> valueAt (origT st) q
      | (Fixed, q) \<Rightarrow> valueAt (fixedT st) q)"

text \<open>
  The assignment \<^verbatim>\<open>target[k] = v\<close>, where \<open>rp\<close> is the place of \<open>target\<close>. On undefined,
  null or a scalar it throws a TypeError (the module is strict code). A named property
  set on an array is none of its elements and leaves the tree as it is. Overwriting a
  slot of the fixed tree drops the links at or below it.
\<close>

definition assign :: "store \<Rightarrow> region \<times> path \<Rightarrow> string \<Rightarrow> jv \<Rightarrow> error + store" where
  "assign st rp k v =
     (case place st rp of
        (Orig, q) \<Rightarrow>
          (case valueAt (origT st) q of
             JObj kvs \<Rightarrow> Inr (st\<lparr>origT := putAt (origT st) q (JObj (setKey kvs k v))\<rparr>)
           | JArr xs \<Rightarrow> Inr st
           | _ \<Rightarrow> Inl TypeError)
      | (Fixed, q) \<Rightarrow>
          (case valueAt (fixedT st) q of
             JObj kvs \<Rightarrow>
               Inr (st\<lparr>fixedT := putAt (fixedT st) q (JObj (setKey kvs k v)),
                       links := filter (\<lambda>l. \<not> isPrefix (q @ [Key k]) (fst l)) (links st)\<rparr>)
           | JArr xs \<Rightarrow> Inr st
           | _ \<Rightarrow> Inl TypeError))"

text \<open>The slot \<open>src\<close> of the fixed tree now holds the object at \<open>tgt\<close> of the original.\<close>

definition link :: "store \<Rightarrow> path \<Rightarrow> path \<Rightarrow> store" where
  "link st src tgt = st\<lparr>links := (src, tgt) # links st\<rparr>"

text \<open>The fixed record as a reader finds it: every linked slot shows the original object it holds.\<close>

definition fixedView :: "store \<Rightarrow> jv" where
  "fixedView st = foldr (\<lambda>l t. putAt t (fst l) (valueAt (origT st) (snd l))) (links st) (fixedT st)"


section \<open>The rules, one record at a time\<close>

fun extractPrimitive :: "jv \<Rightarrow> jv" where
  "extractPrimitive (JObj kvs) =
     (if hasKey kvs ''#text'' then getKey kvs ''#text''
      else if length kvs = 1 \<and> \<not> isObject (getKey kvs (fst (hd kvs))) then getKey kvs (fst (hd kvs))
      else JObj kvs)"
| "extractPrimitive v = v"

text \<open>
  \<^verbatim>\<open>toLowerCase\<close> and \<^verbatim>\<open>toUpperCase\<close> on the letters of ASCII. The validator lowers
  field names of ASCII only, and it raises the currency text to compare it with ZMW and
  ZK, letters that no character outside ASCII is raised to.
\<close>

definition lowerChar :: "char \<Rightarrow> char" where
  "lowerChar c =
     (case map_of (zip ''ABCDEFGHIJKLMNOPQRSTUVWXYZ'' ''abcdefghijklmnopqrstuvwxyz'') c of
        Some l \<Rightarrow> l | None \<Rightarrow> c)"

definition upperChar :: "char \<Rightarrow> char" where
  "upperChar c =
     (case map_of (zip ''abcdefghijklmnopqrstuvwxyz'' ''ABCDEFGHIJKLMNOPQRSTUVWXYZ'') c of
        Some u \<Rightarrow> u | None \<Rightarrow> c)"

definition toLowerCase :: "string \<Rightarrow> string" where
  "toLowerCase s = map lowerChar s"

definition toUpperCase :: "string \<Rightarrow> string" where
  "toUpperCase s = map upperChar s"

text \<open>\<^verbatim>\<open>field.charAt(0).toLowerCase() + field.slice(1)\<close>\<close>

definition lowerFirst :: "string \<Rightarrow> string" where
  "lowerFirst s = (case s of [] \<Rightarrow> [] | c # t \<Rightarrow> lowerChar c # t)"

definition MANDATORY_INVOICE_FIELDS :: "string list" where
  "MANDATORY_INVOICE_FIELDS =
     [''TPIN'', ''InvoiceDate'', ''InvoiceNumber'', ''TaxableAmount'', ''VATAmount'', ''GrandTotal'']"

text \<open>\<^verbatim>\<open>validateMandatoryFields\<close> of \<^verbatim>\<open>zraValidationRules.ts\<close>: the names that are missing.\<close>

definition validateMandatoryFields :: "jv \<Rightarrow> string list" where
  "validateMandatoryFields record =
     filter (\<lambda>name.
        (let value = (if isObject record
                      then coalesce (coalesce (propOf record name) (propOf record (toLowerCase name)))
                                    (propOf record (lowerFirst name))
                      else JUndefined)
         in value = JUndefined \<or> value = JNull \<or> value = JStr []))
       MANDATORY_INVOICE_FIELDS"

definition mandatoryStep :: "nat \<Rightarrow> jv \<Rightarrow> issue list" where
  "mandatoryStep index record =
     map (\<lambda>name.
        \<lparr>severity = Error, field = recordLoc name index,
         message = ''Mandatory field missing per ZRA requirements'',
         originalValue = JStr ''missing'', fixedValue = JStr ''REQUIRED'',
         autoFixed = False, confidence = High, category = Mandatory\<rparr>)
       (validateMandatoryFields record)"

subsection \<open>Invoice number and duplicates\<close>

definition invoiceNumberField :: "jv \<Rightarrow> jv" where
  "invoiceNumberField record =
     orJS (orJS (extractPrimitive (propOf record ''InvoiceNumber''))
                (extractPrimitive (propOf record ''invoiceNumber'')))
          (extractPrimitive (propOf record ''InvoiceNo''))"

definition duplicateIssue :: "nat \<Rightarrow> nat \<Rightarrow> string \<Rightarrow> issue" where
  "duplicateIssue index firstOccurrence invoiceNumStr =
     \<lparr>severity = Error, field = recordLoc ''InvoiceNumber'' index,
      message = ''Duplicate invoice number detected (first seen in Record ''
                @ natToString (firstOccurrence + 1)
                @ ''). Each invoice must have a unique number per ZRA regulations'',
      originalValue = JStr invoiceNumStr, fixedValue = JStr ''MANUAL_REVIEW_REQUIRED'',
      autoFixed = False, confidence = High, category = Duplicate\<rparr>"

text \<open>The table \<^verbatim>\<open>invoiceNumbersSeen\<close> is a map from the trimmed text to the index of its first record.\<close>

definition invoiceStep ::
  "(string \<rightharpoonup> nat) \<Rightarrow> nat \<Rightarrow> jv \<Rightarrow> error + (issue list \<times> (string \<rightharpoonup> nat))" where
  "invoiceStep seen index record =
     (if \<not> truthy (invoiceNumberField record)
      then Inr ([\<lparr>severity = Error, field = recordLoc ''InvoiceNumber'' index,
                  message = ''Invoice number is mandatory per ZRA requirements'',
                  originalValue = JStr ''missing'', fixedValue = JStr ''REQUIRED'',
                  autoFixed = False, confidence = High, category = Mandatory\<rparr>], seen)
      else (case toStringJS (invoiceNumberField record) of Inl e \<Rightarrow> Inl e | Inr str \<Rightarrow>
             (let invoiceNumStr = trim str
              in case seen invoiceNumStr of
                   Some firstOccurrence \<Rightarrow>
                     Inr ([duplicateIssue index firstOccurrence invoiceNumStr], seen)
                 | None \<Rightarrow> Inr ([], seen(invoiceNumStr \<mapsto> index)))))"

subsection \<open>Currency\<close>

definition currencyStep :: "nat \<Rightarrow> store \<Rightarrow> error + (issue list \<times> store)" where
  "currencyStep index st =
     (let record = origT st;
          currencyField = orJS (orJS (extractPrimitive (propOf record ''Currency''))
                                     (extractPrimitive (propOf record ''currency'')))
                               (extractPrimitive (propOf record ''CurrencyCode''))
      in if truthy currencyField
         then (case toStringJS currencyField of Inl e \<Rightarrow> Inl e | Inr str \<Rightarrow>
                (let currencyStr = trim (toUpperCase str)
                 in if currencyStr \<noteq> ''ZMW'' \<and> currencyStr \<noteq> ''ZK''
                    then
                      (let fieldName = (if propOf record ''Currency'' \<noteq> JUndefined then ''Currency''
                                        else if propOf record ''currency'' \<noteq> JUndefined then ''currency''
                                        else ''CurrencyCode'')
                       in (case assign st (Fixed, []) fieldName (JStr ''ZMW'') of Inl e \<Rightarrow> Inl e | Inr st' \<Rightarrow>
                            Inr ([\<lparr>severity = Warning, field = recordLoc fieldName index,
                                   message = ''Currency must be ZMW (Zambian Kwacha) per ZRA requirements'',
                                   originalValue = JStr currencyStr, fixedValue = JStr ''ZMW'',
                                   autoFixed = True, confidence = High, category = Currency\<rparr>], st')))
                    else Inr ([], st)))
         else (case assign st (Fixed, []) ''Currency'' (JStr ''ZMW'') of Inl e \<Rightarrow> Inl e | Inr st' \<Rightarrow>
                Inr ([\<lparr>severity = Info, field = recordLoc ''Currency'' index,
                       message = ''Currency set to ZMW (Zambian Kwacha)'',
                       originalValue = JStr ''missing'', fixedValue = JStr ''ZMW'',
                       autoFixed = True, confidence = High, category = Currency\<rparr>], st')))"

subsection \<open>Taxpayer identification number\<close>

definition tpinFieldOf :: "jv \<Rightarrow> string" where
  "tpinFieldOf record =
     (if propOf record ''TPIN'' \<noteq> JUndefined then ''TPIN''
      else if propOf record ''tpin'' \<noteq> JUndefined then ''tpin'' else ''TaxpayerTIN'')"

definition tpinIssue :: "nat \<Rightarrow> string \<Rightarrow> jv \<Rightarrow> issue" where
  "tpinIssue index tpinField tpinValue =
     (case normalizeTpin tpinValue of
        (normalized, conf) \<Rightarrow>
          \<lparr>severity = (if conf = Low then Error else Warning),
           field = recordLoc tpinField index,
           message = ''TPIN normalized to ZRA 10-digit format ('' @ normalized @ '')'',
           originalValue = tpinValue, fixedValue = JStr normalized,
           autoFixed = True, confidence = conf, category = Tpin\<rparr>)"

definition tpinStep :: "nat \<Rightarrow> store \<Rightarrow> error + (issue list \<times> store)" where
  "tpinStep index st =
     (let record = origT st
      in if propOf record ''TPIN'' \<noteq> JUndefined \<or> propOf record ''tpin'' \<noteq> JUndefined
            \<or> propOf record ''TaxpayerTIN'' \<noteq> JUndefined
         then
           (let tpinField = tpinFieldOf record;
                tpinValue = extractPrimitive (propOf record tpinField);
                normalized = fst (normalizeTpin tpinValue)
            in if JStr normalized \<noteq> tpinValue
               then (case assign st (Fixed, []) tpinField (JStr normalized) of Inl e \<Rightarrow> Inl e | Inr st' \<Rightarrow>
                      Inr ([tpinIssue index tpinField tpinValue], st'))
               else Inr ([], st))
         else Inr ([], st))"

subsection \<open>Dates\<close>

definition dateFieldStep :: "clock \<Rightarrow> nat \<Rightarrow> string \<Rightarrow> store \<Rightarrow> error + (issue list \<times> store)" where
  "dateFieldStep clk index dateField st =
     (let record = origT st
      in if truthy (propOf record dateField)
         then
           (case normalizeDate clk (extractPrimitive (propOf record dateField)) of
              (normalized, conf) \<Rightarrow>
                (if JStr normalized \<noteq> propOf record dateField
                 then (case assign st (Fixed, []) dateField (JStr normalized) of Inl e \<Rightarrow> Inl e | Inr st' \<Rightarrow>
                        Inr ([\<lparr>severity = (if conf = Low then Error else Info),
                               field = recordLoc dateField index,
                               message = ''Date normalized to ZRA standard YYYY-MM-DD format (''
                                         @ normalized @ '')'',
                               originalValue = propOf record dateField, fixedValue = JStr normalized,
                               autoFixed = True, confidence = conf, category = DateCat\<rparr>], st'))
                 else Inr ([], st)))
         else Inr ([], st))"

fun dateStep :: "clock \<Rightarrow> nat \<Rightarrow> string list \<Rightarrow> store \<Rightarrow> error + (issue list \<times> store)" where
  "dateStep clk index [] st = Inr ([], st)"
| "dateStep clk index (dateField # rest) st =
     (case dateFieldStep clk index dateField st of Inl e \<Rightarrow> Inl e | Inr (iss, st') \<Rightarrow>
       (case dateStep clk index rest st' of Inl e \<Rightarrow> Inl e | Inr (iss', st'') \<Rightarrow>
         Inr (iss @ iss', st'')))"


subsection \<open>VAT rate\<close>

definition vatFieldOf :: "jv \<Rightarrow> string" where
  "vatFieldOf record = (if propOf record ''VATRate'' \<noteq> JUndefined then ''VATRate'' else ''vatRate'')"

definition vatStep :: "nat \<Rightarrow> store \<Rightarrow> error + (issue list \<times> store)" where
  "vatStep index st =
     (let record = origT st; vatField = vatFieldOf record
      in (case parseNumber (extractPrimitive (propOf record vatField)) of Inl e \<Rightarrow> Inl e | Inr vatValue \<Rightarrow>
           if (case vatValue of None \<Rightarrow> True | Some v \<Rightarrow> v < 0 \<or> v > 100)
           then (case assign st (Fixed, []) vatField (JNum 16) of Inl e \<Rightarrow> Inl e | Inr st' \<Rightarrow>
                  (case toStringJS (orJS (propOf record vatField) (JStr ''missing'')) of Inl e \<Rightarrow> Inl e | Inr orig \<Rightarrow>
                    Inr ([\<lparr>severity = Warning, field = recordLoc vatField index,
                           message = ''VAT rate set to ZRA standard 16%'',
                           originalValue = JStr orig, fixedValue = JStr ''16'',
                           autoFixed = True, confidence = High, category = Vat\<rparr>], st')))
           else
             (case vatValue of
                Some v \<Rightarrow>
                  (if v \<noteq> 0 \<and> v \<noteq> 16
                   then Inr ([\<lparr>severity = Info, field = recordLoc vatField index,
                               message = ''Non-standard VAT rate detected ('' @ numToString v
                                 @ ''%). ZRA standard is 16% or 0% for exempt items'',
                               originalValue = JStr (numToString v), fixedValue = JStr (numToString v),
                               autoFixed = False, confidence = High, category = Vat\<rparr>], st)
                   else Inr ([], st))
              | None \<Rightarrow> Inr ([], st))))"

subsection \<open>Line items\<close>

definition mathRound :: "rat \<Rightarrow> rat" where
  "mathRound x = of_int \<lfloor>x + 1 / 2\<rfloor>"

text \<open>\<^verbatim>\<open>String(n)\<close> of a number or null.\<close>

definition strOfNum :: "rat option \<Rightarrow> string" where
  "strOfNum n = (case n of None \<Rightarrow> ''null'' | Some x \<Rightarrow> numToString x)"

text \<open>The multiplication sign of the messages, in UTF-8.\<close>

definition timesSign :: string where
  "timesSign = [CHR 0xC3, CHR 0x97]"

definition amountError :: "string \<Rightarrow> string \<Rightarrow> string \<Rightarrow> issue" where
  "amountError loc msg orig =
     \<lparr>severity = Error, field = loc, message = msg,
      originalValue = JStr orig, fixedValue = JStr ''MANUAL_REVIEW_REQUIRED'',
      autoFixed = False, confidence = High, category = Amount\<rparr>"

definition amountZero :: "string \<Rightarrow> string \<Rightarrow> string \<Rightarrow> issue" where
  "amountZero loc msg orig =
     \<lparr>severity = Warning, field = loc, message = msg,
      originalValue = JStr orig, fixedValue = JStr orig,
      autoFixed = False, confidence = Medium, category = Amount\<rparr>"

definition amountFixed :: "string \<Rightarrow> string \<Rightarrow> string \<Rightarrow> string \<Rightarrow> issue" where
  "amountFixed loc msg orig fixed =
     \<lparr>severity = Warning, field = loc, message = msg,
      originalValue = JStr orig, fixedValue = JStr fixed,
      autoFixed = True, confidence = High, category = Amount\<rparr>"

text \<open>\<^verbatim>\<open>current === null || Math.abs(current - calculated) > 0.01\<close>\<close>

definition needsFix :: "rat option \<Rightarrow> rat \<Rightarrow> bool" where
  "needsFix current calculated =
     (case current of None \<Rightarrow> True | Some c \<Rightarrow> \<bar>c - calculated\<bar> > 1 / 100)"

text \<open>
  One call of the callback of \<^verbatim>\<open>lineItems.forEach\<close>: \<open>src\<close> is where the element
  \<open>line\<close> lies in the original, and \<^verbatim>\<open>fixedRecord[lineItemsField][lineIndex]\<close> is the
  place of \<open>fixedLine\<close>.
\<close>

definition lineItem :: "nat \<Rightarrow> string \<Rightarrow> nat \<Rightarrow> path \<Rightarrow> store \<Rightarrow> error + (issue list \<times> store)" where
  "lineItem index lineItemsField lineIndex src st =
     (let line = load st (Orig, src)
      in if nullish (load st (Fixed, [Key lineItemsField])) then Inl TypeError
         else
           (let fixedLine = (Fixed, [Key lineItemsField, Idx lineIndex]);
                l = (if isObject line then line else JObj [(''value'', line)]);
                qtyField = (if propOf l ''Quantity'' \<noteq> JUndefined then ''Quantity'' else ''quantity'');
                priceField = (if propOf l ''UnitPrice'' \<noteq> JUndefined then ''UnitPrice'' else ''unitPrice'')
            in (case parseNumber (extractPrimitive (propOf l qtyField)) of Inl e \<Rightarrow> Inl e | Inr qty \<Rightarrow>
               (case parseNumber (extractPrimitive (propOf l priceField)) of Inl e \<Rightarrow> Inl e | Inr unitPrice \<Rightarrow>
                 (let checks =
                        (case qty of
                           Some q \<Rightarrow>
                             (if q \<le> 0
                              then [amountError (lineLoc qtyField index lineIndex)
                                      ''Quantity must be greater than zero per ZRA requirements''
                                      (numToString q)]
                              else [])
                         | None \<Rightarrow> [])
                        @ (case unitPrice of
                             Some u \<Rightarrow>
                               (if u < 0
                                then [amountError (lineLoc priceField index lineIndex)
                                        ''Unit price cannot be negative per ZRA requirements''
                                        (numToString u)]
                                else [])
                               @ (if u = 0
                                  then [amountZero (lineLoc priceField index lineIndex)
                                          ''Unit price is zero. Verify this is correct for free/complimentary items''
                                          (numToString u)]
                                  else [])
                           | None \<Rightarrow> [])
                  in case (qty, unitPrice) of
                       (Some q, Some u) \<Rightarrow>
                         (if q > 0 \<and> u \<ge> 0
                          then
                            (let calculatedTotal = mathRound (q * u * 100) / 100;
                                 lineTotalField = (if propOf l ''LineTotal'' \<noteq> JUndefined
                                                   then ''LineTotal'' else ''lineTotal'')
                             in (case parseNumber (extractPrimitive (propOf l lineTotalField)) of Inl e \<Rightarrow> Inl e | Inr currentTotal \<Rightarrow>
                                  if needsFix currentTotal calculatedTotal
                                  then (case assign st fixedLine lineTotalField (JNum calculatedTotal) of Inl e \<Rightarrow> Inl e | Inr st' \<Rightarrow>
                                         Inr (checks
                                              @ [amountFixed (lineLoc lineTotalField index lineIndex)
                                                   (''Line total recalculated: '' @ numToString q @ '' '' @ timesSign
                                                    @ '' '' @ numToString u @ '' = '' @ numToString calculatedTotal)
                                                   (strOfNum currentTotal) (numToString calculatedTotal)], st'))
                                  else Inr (checks, st)))
                          else Inr (checks, st))
                     | _ \<Rightarrow> Inr (checks, st))))))"

fun lineItemsLoop :: "nat \<Rightarrow> string \<Rightarrow> nat \<Rightarrow> path list \<Rightarrow> store \<Rightarrow> error + (issue list \<times> store)" where
  "lineItemsLoop index f lineIndex [] st = Inr ([], st)"
| "lineItemsLoop index f lineIndex (src # rest) st =
     (case lineItem index f lineIndex src st of Inl e \<Rightarrow> Inl e | Inr (iss, st') \<Rightarrow>
       (case lineItemsLoop index f (Suc lineIndex) rest st' of Inl e \<Rightarrow> Inl e | Inr (iss', st'') \<Rightarrow>
         Inr (iss @ iss', st'')))"

definition lineItemsIssue :: "string \<Rightarrow> string \<Rightarrow> string \<Rightarrow> category \<Rightarrow> issue" where
  "lineItemsIssue loc msg orig cat =
     \<lparr>severity = Error, field = loc, message = msg,
      originalValue = JStr orig, fixedValue = JStr ''REQUIRED'',
      autoFixed = False, confidence = High, category = cat\<rparr>"

text \<open>The branch \<^verbatim>\<open>Array.isArray(lineItems)\<close>; \<open>srcs\<close> are the places of the elements.\<close>

definition lineItemsArray :: "nat \<Rightarrow> string \<Rightarrow> path list \<Rightarrow> store \<Rightarrow> error + (issue list \<times> store)" where
  "lineItemsArray index f srcs st =
     (case lineItemsLoop index f 0 srcs st of Inl e \<Rightarrow> Inl e | Inr (iss, st') \<Rightarrow>
       Inr ((if srcs = []
             then [lineItemsIssue (recordLoc f index)
                     ''Invoice must contain at least one line item per ZRA requirements''
                     ''empty array'' Mandatory]
             else []) @ iss, st'))"

fun typeofJS :: "jv \<Rightarrow> string" where
  "typeofJS JUndefined = ''undefined''"
| "typeofJS (JBool b) = ''boolean''"
| "typeofJS (JNum n) = ''number''"
| "typeofJS (JStr s) = ''string''"
| "typeofJS v = ''object''"

text \<open>
  The statement \<^verbatim>\<open>fixedRecord[lineItemsField] = lineItems\<close> of the wrapper branch stores no
  copy. When \<^verbatim>\<open>LineItem\<close> is an array, the slot holds that very array of the original;
  otherwise it holds a new one-element array whose element, when it is an object, is that
  very object of the original.
\<close>

definition reflectLineItems :: "string \<Rightarrow> jv \<Rightarrow> store \<Rightarrow> error + store" where
  "reflectLineItems f li st =
     (if isObject (load st (Fixed, [])) \<and> truthy (load st (Fixed, [Key f]))
      then
        (if isArray li
         then (case assign st (Fixed, []) f li of Inl e \<Rightarrow> Inl e | Inr st' \<Rightarrow>
                Inr (link st' [Key f] [Key f, Key ''LineItem'']))
         else (case assign st (Fixed, []) f (JArr [li]) of Inl e \<Rightarrow> Inl e | Inr st' \<Rightarrow>
                Inr (if isObject li then link st' [Key f, Idx 0] [Key f, Key ''LineItem''] else st')))
      else Inr st)"

definition lineItemsStep :: "nat \<Rightarrow> store \<Rightarrow> error + (issue list \<times> store)" where
  "lineItemsStep index st =
     (let record = origT st
      in if truthy (propOf record ''LineItems'') \<or> truthy (propOf record ''lineItems'')
         then
           (let f = (if truthy (propOf record ''LineItems'') then ''LineItems'' else ''lineItems'');
                lineItems = propOf record f;
                notArray = Inr ([lineItemsIssue (recordLoc f index)
                                   ''Line items must be an array per ZRA schema requirements''
                                   (typeofJS lineItems) Schema], st)
            in case lineItems of
                 JObj kvs \<Rightarrow>
                   (if hasKey kvs ''LineItem''
                    then
                      (let li = getKey kvs ''LineItem''
                       in (case reflectLineItems f li st of Inl e \<Rightarrow> Inl e | Inr st' \<Rightarrow>
                            lineItemsArray index f
                              (case li of
                                 JArr xs \<Rightarrow> map (\<lambda>i. [Key f, Key ''LineItem'', Idx i]) [0..<length xs]
                               | _ \<Rightarrow> [[Key f, Key ''LineItem'']])
                              st'))
                    else notArray)
               | JArr xs \<Rightarrow> lineItemsArray index f (map (\<lambda>i. [Key f, Idx i]) [0..<length xs]) st
               | _ \<Rightarrow> notArray)
         else Inr ([lineItemsIssue (recordLoc ''LineItems'' index)
                      ''Invoice must contain line items per ZRA requirements''
                      ''missing'' Mandatory], st))"


subsection \<open>Totals\<close>

text \<open>
  The branch \<^verbatim>\<open>taxable !== null && taxable >= 0\<close>. The rate is read from the fixed record
  with \<^verbatim>\<open>fixedRecord.VATRate || fixedRecord.vatRate || 16\<close>, and null divided by one hundred
  is zero.
\<close>

definition recomputeTotals ::
  "nat \<Rightarrow> rat \<Rightarrow> string \<Rightarrow> string \<Rightarrow> store \<Rightarrow> error + (issue list \<times> store)" where
  "recomputeTotals index taxable vatAmountField grandTotalField st =
     (let record = origT st
      in (case parseNumber (orJS (orJS (load st (Fixed, [Key ''VATRate'']))
                                        (load st (Fixed, [Key ''vatRate''])))
                                  (JNum 16)) of Inl e \<Rightarrow> Inl e | Inr rate \<Rightarrow>
           (let vatRate = (case rate of None \<Rightarrow> 0 | Some r \<Rightarrow> r) / 100;
                calculatedVAT = mathRound (taxable * vatRate * 100) / 100;
                calculatedGrandTotal = mathRound ((taxable + calculatedVAT) * 100) / 100
            in (case parseNumber (propOf record vatAmountField) of Inl e \<Rightarrow> Inl e | Inr currentVAT \<Rightarrow>
               (case if needsFix currentVAT calculatedVAT
                      then (case assign st (Fixed, []) vatAmountField (JNum calculatedVAT) of Inl e \<Rightarrow> Inl e | Inr st' \<Rightarrow>
                             Inr ([amountFixed (recordLoc vatAmountField index)
                                     (''VAT amount recalculated: '' @ numToString taxable @ '' '' @ timesSign
                                      @ '' '' @ numToString (vatRate * 100) @ ''% = ''
                                      @ numToString calculatedVAT)
                                     (strOfNum currentVAT) (numToString calculatedVAT)], st'))
                      else Inr ([], st) of Inl e \<Rightarrow> Inl e | Inr (iss1, st1) \<Rightarrow>
               (case parseNumber (propOf record grandTotalField) of Inl e \<Rightarrow> Inl e | Inr currentGrandTotal \<Rightarrow>
               (case if needsFix currentGrandTotal calculatedGrandTotal
                      then (case assign st1 (Fixed, []) grandTotalField (JNum calculatedGrandTotal) of Inl e \<Rightarrow> Inl e | Inr st' \<Rightarrow>
                             Inr ([amountFixed (recordLoc grandTotalField index)
                                     (''Grand total recalculated: '' @ numToString taxable @ '' + ''
                                      @ numToString calculatedVAT @ '' = ''
                                      @ numToString calculatedGrandTotal)
                                     (strOfNum currentGrandTotal) (numToString calculatedGrandTotal)], st'))
                      else Inr ([], st1) of Inl e \<Rightarrow> Inl e | Inr (iss2, st2) \<Rightarrow>
                 Inr (iss1 @ iss2, st2))))))))"

definition negativeIssue :: "nat \<Rightarrow> string \<Rightarrow> string \<Rightarrow> rat option \<Rightarrow> issue list" where
  "negativeIssue index name what amount =
     (case amount of
        Some a \<Rightarrow>
          (if a < 0
           then [amountError (recordLoc name index)
                   (what @ '' cannot be negative per ZRA requirements'') (numToString a)]
           else [])
      | None \<Rightarrow> [])"

definition totalsStep :: "nat \<Rightarrow> store \<Rightarrow> error + (issue list \<times> store)" where
  "totalsStep index st =
     (let record = origT st;
          taxableField = (if propOf record ''TaxableAmount'' \<noteq> JUndefined then ''TaxableAmount'' else ''taxableAmount'');
          vatAmountField = (if propOf record ''VATAmount'' \<noteq> JUndefined then ''VATAmount'' else ''vatAmount'');
          grandTotalField = (if propOf record ''GrandTotal'' \<noteq> JUndefined then ''GrandTotal'' else ''grandTotal'')
      in (case parseNumber (extractPrimitive (propOf record taxableField)) of Inl e \<Rightarrow> Inl e | Inr taxable \<Rightarrow>
         (case parseNumber (extractPrimitive (propOf record vatAmountField)) of Inl e \<Rightarrow> Inl e | Inr vatAmount \<Rightarrow>
         (case parseNumber (extractPrimitive (propOf record grandTotalField)) of Inl e \<Rightarrow> Inl e | Inr grandTotal \<Rightarrow>
           (let checks =
                  negativeIssue index taxableField ''Taxable amount'' taxable
                  @ negativeIssue index vatAmountField ''VAT amount'' vatAmount
                  @ negativeIssue index grandTotalField ''Grand total'' grandTotal
                  @ (if taxable = Some 0
                     then [amountZero (recordLoc taxableField index)
                             ''Taxable amount is zero. Verify this is correct for zero-rated transactions''
                             (numToString 0)]
                     else [])
            in case taxable of
                 Some t \<Rightarrow>
                   (if t \<ge> 0
                    then (case recomputeTotals index t vatAmountField grandTotalField st of Inl e \<Rightarrow> Inl e | Inr (iss, st') \<Rightarrow>
                           Inr (checks @ iss, st'))
                    else Inr (checks, st))
               | None \<Rightarrow> Inr (checks, st))))))"

subsection \<open>Structure\<close>

fun joinWith :: "string \<Rightarrow> string list \<Rightarrow> string" where
  "joinWith s [] = []"
| "joinWith s [x] = x"
| "joinWith s (x # y # ys) = x @ s @ joinWith s (y # ys)"

definition schemaStep :: "nat \<Rightarrow> jv \<Rightarrow> issue list" where
  "schemaStep index record =
     (let missingStructure =
            filter (\<lambda>name. \<not> (propOf record name \<noteq> JUndefined
                               \<or> propOf record (toLowerCase name) \<noteq> JUndefined
                               \<or> propOf record (lowerFirst name) \<noteq> JUndefined))
                   [''TPIN'', ''InvoiceNumber'', ''InvoiceDate'']
      in if length missingStructure > 0
         then [\<lparr>severity = Error, field = recordLoc ''Schema Validation'' index,
                message = ''Missing required fields per ZRA schema: '' @ joinWith '', '' missingStructure,
                originalValue = JStr ''incomplete structure'', fixedValue = JStr ''MANUAL_REVIEW_REQUIRED'',
                autoFixed = False, confidence = High, category = Schema\<rparr>]
         else [])"

subsection \<open>All rules on one record\<close>

text \<open>
  The rules in the order of the source, on a store whose roots are \<^verbatim>\<open>record\<close> and
  \<^verbatim>\<open>fixedRecord\<close>. The issues are those pushed for this record, in order.
\<close>

definition validateRecord ::
  "clock \<Rightarrow> (string \<rightharpoonup> nat) \<Rightarrow> nat \<Rightarrow> store \<Rightarrow> error + (issue list \<times> (string \<rightharpoonup> nat) \<times> store)" where
  "validateRecord clk seen index st =
     (case invoiceStep seen index (origT st) of Inl e \<Rightarrow> Inl e | Inr (invoiceIssues, seen') \<Rightarrow>
     (case currencyStep index st of Inl e \<Rightarrow> Inl e | Inr (currencyIssues, st1) \<Rightarrow>
     (case tpinStep index st1 of Inl e \<Rightarrow> Inl e | Inr (tpinIssues, st2) \<Rightarrow>
     (case dateStep clk index [''Date'', ''date'', ''InvoiceDate'', ''TransactionDate''] st2 of Inl e \<Rightarrow> Inl e | Inr (dateIssues, st3) \<Rightarrow>
     (case vatStep index st3 of Inl e \<Rightarrow> Inl e | Inr (vatIssues, st4) \<Rightarrow>
     (case lineItemsStep index st4 of Inl e \<Rightarrow> Inl e | Inr (lineIssues, st5) \<Rightarrow>
     (case totalsStep index st5 of Inl e \<Rightarrow> Inl e | Inr (totalIssues, st6) \<Rightarrow>
       Inr (mandatoryStep index (origT st) @ invoiceIssues @ currencyIssues @ tpinIssues
            @ dateIssues @ vatIssues @ lineIssues @ totalIssues @ schemaStep index (origT st6),
            seen', st6))))))))"


section \<open>The whole payload\<close>

text \<open>\<^verbatim>\<open>keys.length === 1 && isObject(record[keys[0]])\<close>: the single key of a wrapper around an object.\<close>

fun wrapperKey :: "jv \<Rightarrow> string option" where
  "wrapperKey (JObj [(k, v)]) = (if isObject v then Some k else None)"
| "wrapperKey v = None"

text \<open>
  The object that the rules read as \<^verbatim>\<open>record\<close> for the element \<open>origRecord\<close> of the
  payload: a non-object is put inside a fresh \<^verbatim>\<open>{ value: ... }\<close>, and a wrapper around a
  single object is entered.
\<close>

definition wrapValue :: "jv \<Rightarrow> jv" where
  "wrapValue v = (if isObject v then v else JObj [(''value'', v)])"

definition recordOf :: "jv \<Rightarrow> jv" where
  "recordOf origRecord =
     (case wrapperKey (wrapValue origRecord) of
        Some k \<Rightarrow> propOf (wrapValue origRecord) k
      | None \<Rightarrow> wrapValue origRecord)"

text \<open>
  The callback of \<^verbatim>\<open>records.forEach\<close> on the element \<open>origRecord\<close> of the payload and
  the element \<open>fixedElem\<close> of its clone. The fresh \<^verbatim>\<open>{ value: ... }\<close> of a non-object is
  held by nobody else; the wrapper around a single object is entered on both sides. The
  callback can reach no other element, so it returns the two elements as they are
  afterwards, with the issues and the table.
\<close>

definition forEachRecord ::
  "clock \<Rightarrow> (string \<rightharpoonup> nat) \<Rightarrow> nat \<Rightarrow> jv \<Rightarrow> jv
     \<Rightarrow> error + (issue list \<times> (string \<rightharpoonup> nat) \<times> jv \<times> jv)" where
  "forEachRecord clk seen index origRecord fixedElem =
     (let record0 = wrapValue origRecord;
          fixed0 = wrapValue fixedElem;
          inner = wrapperKey record0;
          record = recordOf origRecord;
          fixedInner = (case inner of Some k \<Rightarrow> isObject (propOf fixed0 k) | None \<Rightarrow> False);
          fixedRecord = (if fixedInner then propOf fixed0 (the inner) else fixed0)
      in (case validateRecord clk seen index \<lparr>origT = record, fixedT = fixedRecord, links = []\<rparr> of
            Inl e \<Rightarrow> Inl e
          | Inr (iss, seen', st) \<Rightarrow>
              (let record0' = (case inner of Some k \<Rightarrow> putAt record0 [Key k] (origT st) | None \<Rightarrow> origT st);
                   fixed0' = (if fixedInner then putAt fixed0 [Key (the inner)] (fixedView st)
                              else fixedView st)
               in Inr (iss, seen',
                       if isObject origRecord then record0' else origRecord,
                       if isObject fixedElem then fixed0' else fixedElem))))"

text \<open>\<^verbatim>\<open>records.forEach(...)\<close>, with \<^verbatim>\<open>fixedRecords[index]\<close> undefined beyond the end of the clone.\<close>

fun forEachRecords ::
  "clock \<Rightarrow> (string \<rightharpoonup> nat) \<Rightarrow> nat \<Rightarrow> jv list \<Rightarrow> jv list
     \<Rightarrow> error + (issue list \<times> jv list \<times> jv list)" where
  "forEachRecords clk seen index [] fixedRecords = Inr ([], [], fixedRecords)"
| "forEachRecords clk seen index (origRecord # rest) fixedRecords =
     (case forEachRecord clk seen index origRecord
             (case fixedRecords of [] \<Rightarrow> JUndefined | fixedElem # others \<Rightarrow> fixedElem) of
        Inl e \<Rightarrow> Inl e
      | Inr (iss, seen', origRecord', fixedElem') \<Rightarrow>
          (case forEachRecords clk seen' (Suc index) rest (tl fixedRecords) of
             Inl e \<Rightarrow> Inl e
           | Inr (iss', rest', others') \<Rightarrow>
               Inr (iss @ iss', origRecord' # rest',
                    (case fixedRecords of [] \<Rightarrow> [] | fixedElem # others \<Rightarrow> fixedElem' # others'))))"

datatype fileType = XML | CSV | JSON

text \<open>\<^verbatim>\<open>workingData\<close>: the payload, or the object inside its single top-level wrapper.\<close>

definition workingDataOf :: "jv \<Rightarrow> jv" where
  "workingDataOf data = (case wrapperKey data of Some k \<Rightarrow> propOf data k | None \<Rightarrow> data)"

text \<open>\<^verbatim>\<open>Array.isArray(x) ? x : [x]\<close>\<close>

definition asList :: "jv \<Rightarrow> jv list" where
  "asList x = (case x of JArr xs \<Rightarrow> xs | _ \<Rightarrow> [x])"

definition recordsOf :: "jv \<Rightarrow> jv list" where
  "recordsOf data = asList (workingDataOf data)"

text \<open>
  \<^verbatim>\<open>validateAndFix\<close>. The field \<open>originalData\<close> of the result is the object that was
  passed in, so it shows the payload as it is after the call. The table of invoice
  numbers starts empty in every call.
\<close>

definition validateAndFix :: "clock \<Rightarrow> jv \<Rightarrow> fileType \<Rightarrow> error + validationResult" where
  "validateAndFix clk data fileType =
     (let workingData = workingDataOf data
      in (case jsonClone workingData of
            Inl e \<Rightarrow> Inl e
          | Inr fixedClone \<Rightarrow>
              (case forEachRecords clk Map.empty 0 (recordsOf data) (asList fixedClone) of
                 Inl e \<Rightarrow> Inl e
               | Inr (iss, records', fixedRecords') \<Rightarrow>
                   (let workingData' = (if isArray workingData then JArr records' else hd records')
                    in Inr \<lparr>isValid = (length (filter (\<lambda>i. severity i = Error) iss) = 0),
                            issues = iss,
                            originalData = (case wrapperKey data of
                                              Some k \<Rightarrow> putAt data [Key k] workingData'
                                            | None \<Rightarrow> workingData'),
                            fixedData = (if isArray data then JArr fixedRecords'
                                         else (case fixedRecords' of [] \<Rightarrow> JUndefined | x # xs \<Rightarrow> x))\<rparr>))))"

section \<open>The claims in their own words, and example payloads\<close>



text \<open>The first instant of 2026, UTC.\<close>

definition exampleClock :: clock where
  "exampleClock = \<lparr>nowMs = 1767225600000, fullYear = 2026\<rparr>"

text \<open>A complete invoice of an exempt sale: rate 0, no VAT, and a grand total equal to the taxable amount.\<close>

definition exemptInvoice :: jv where
  "exemptInvoice =
     JObj [(''TPIN'', JStr ''1234567890''), (''InvoiceNumber'', JStr ''INV-1''),
           (''InvoiceDate'', JStr ''2025-01-15''), (''Currency'', JStr ''ZMW''),
           (''VATRate'', JNum 0),
           (''LineItems'', JArr [JObj [(''Quantity'', JNum 1), (''UnitPrice'', JNum 100),
                                       (''LineTotal'', JNum 100)]]),
           (''TaxableAmount'', JNum 100), (''VATAmount'', JNum 0), (''GrandTotal'', JNum 100)]"

text \<open>An invoice whose line items have the shape \<^verbatim>\<open>{LineItem: {...}}\<close> that the XML decoder gives a single child.\<close>

definition wrappedInvoice :: jv where
  "wrappedInvoice =
     JObj [(''InvoiceNumber'', JStr ''INV-1''),
           (''LineItems'',
            JObj [(''LineItem'', JObj [(''Quantity'', JNum 2), (''UnitPrice'', JNum 10),
                                       (''LineTotal'', JNum 5)])])]"

text \<open>A record whose first currency alias is present and empty, the value being under the second.\<close>

definition emptyAliasInvoice :: jv where
  "emptyAliasInvoice = JObj [(''Currency'', JStr []), (''currency'', JStr ''usd'')]"

text \<open>A record with an invoice number that is an object with a property named \<^verbatim>\<open>toString\<close>, as \<^verbatim>\<open>JSON.parse\<close> builds it from \<^verbatim>\<open>{"InvoiceNumber": {"toString": 1, "id": 7}, "TPIN": "1234567890"}\<close>.\<close>

definition toStringInvoice :: jv where
  "toStringInvoice =
     JObj [(''InvoiceNumber'', JObj [(''toString'', JNum 1), (''id'', JNum 7)]),
           (''TPIN'', JStr ''1234567890'')]"

text \<open>
  The invoice number a record carries: the text \<^verbatim>\<open>String(invoiceNumberField).trim()\<close> when
  the field is there, for the record itself and for an element of the payload.
\<close>

definition invoiceNumStr :: "jv \<Rightarrow> string option" where
  "invoiceNumStr record =
     (if truthy (invoiceNumberField record)
      then (case toStringJS (invoiceNumberField record) of Inr str \<Rightarrow> Some (trim str) | Inl e \<Rightarrow> None)
      else None)"


definition noDuplicate :: "issue list \<Rightarrow> bool" where
  "noDuplicate iss = (\<forall>x \<in> set iss. category x \<noteq> Duplicate)"




text \<open>
  A batch of two records. The first carries its taxpayer number as a text of ten digits;
  the second, inside a wrapper, carries the same digits as a number under \<^verbatim>\<open>tpin\<close>, with line
  items of the shape \<^verbatim>\<open>{LineItem: {...}}\<close>.
\<close>

definition numericTpinBatch :: jv where
  "numericTpinBatch =
     JArr [JObj [(''InvoiceNumber'', JStr ''INV-1''), (''TPIN'', JStr ''1234567890''),
                 (''Currency'', JStr ''ZMW'')],
           JObj [(''Invoice'',
                  JObj [(''InvoiceNumber'', JStr ''INV-2''), (''tpin'', JNum 1234567890),
                        (''Currency'', JStr ''ZMW''),
                        (''LineItems'',
                         JObj [(''LineItem'', JObj [(''Quantity'', JNum 2), (''UnitPrice'', JNum 10),
                                                    (''LineTotal'', JNum 5)])])])]]"

section \<open>What the rules keep of the fixed record\<close>




section \<open>Properties\<close>



text \<open>
  Claim C3. Whenever \<^verbatim>\<open>validateAndFix\<close> returns a result, its flag \<open>isValid\<close> is true
  exactly when no issue of the result has severity error.
\<close>

theorem isValid_iff_no_error:
  "validateAndFix clk data fileType = Inr res \<Longrightarrow>
     isValid res \<longleftrightarrow> (\<forall>i \<in> set (issues res). severity i \<noteq> Error)"
  by (auto simp: validateAndFix_def Let_def filter_empty_conv split: sum.splits prod.splits)

theorem isValid_iff_no_error_witness:
  "\<exists>res. validateAndFix exampleClock emptyAliasInvoice JSON = Inr res
     \<and> (isValid res \<longleftrightarrow> (\<forall>i \<in> set (issues res). severity i \<noteq> Error))"
proof -
  have "\<not> isl (validateAndFix exampleClock emptyAliasInvoice JSON)"
    by code_simp
  then obtain res where r: "validateAndFix exampleClock emptyAliasInvoice JSON = Inr res"
    by (cases "validateAndFix exampleClock emptyAliasInvoice JSON") auto
  from isValid_iff_no_error [OF r] r show ?thesis
    by blast
qed

text \<open>
  Claim C9 says that \<^verbatim>\<open>parseNumber\<close> strips every character except digits, point and
  minus, so that a caret is parsed as if it were removed. The code keeps the caret: the
  text 1^5 parses to 1 where 15 parses to 15, and ^5 is no number where 5 parses to 5.
\<close>

theorem parseNumber_keeps_caret:
  "parseNumber (JStr ''1^5'') = Inr (Some 1) \<and> parseNumber (JStr ''15'') = Inr (Some 15)
   \<and> parseNumber (JStr ''^5'') = Inr None \<and> parseNumber (JStr ''5'') = Inr (Some 5)"
  by code_simp

text \<open>
  Claim C6 says that a day-first date with one or two digits for the day normalizes with
  high confidence under each of the separators slash, dash and point. With the slash the
  code asks for two digits of the day: 1/5/2023 matches no pattern and falls back to the
  current date with low confidence, at any moment.
\<close>

theorem normalizeDate_one_digit_day_slash:
  "normalizeDate clk (JStr ''1/5/2023'') = (todayISO clk, Low)"
  by code_simp

text \<open>The same day under the other spellings, read at the first instant of 2026.\<close>

lemma normalizeDate_examples:
  "normalizeDate exampleClock (JStr ''01/05/2023'') = (''2023-05-01'', High)"
  "normalizeDate exampleClock (JStr ''1-5-2023'') = (''2023-05-01'', High)"
  "normalizeDate exampleClock (JStr ''1.5.2023'') = (''2023-05-01'', High)"
  "todayISO exampleClock = ''2026-01-01''"
  by code_simp+

text \<open>
  Claim C8 says that \<^verbatim>\<open>validateAndFix\<close> returns a result for every payload, undefined
  included. On undefined the deep clone throws a SyntaxError, and on an invoice number
  that is an object with a property named toString the coercion to text throws a
  TypeError.
\<close>

theorem validateAndFix_throws:
  "validateAndFix clk JUndefined fileType = Inl SyntaxError
   \<and> validateAndFix clk toStringInvoice fileType = Inl TypeError"
  by code_simp

text \<open>
  Claim C1 says that the totals are recomputed with the VAT rate of the fixed record
  and that a rate of 0 gives a recomputed VAT of 0. On the exempt invoice, which is
  consistent and has the rate 0, the code recomputes with 16 percent, overwrites the
  VAT amount with 16 and the grand total with 116, and reports both as fixed.
\<close>

theorem exempt_rate_recomputed_with_sixteen:
  "validateAndFix exampleClock exemptInvoice JSON =
     Inr \<lparr>isValid = True,
          issues =
            [amountFixed ''VATAmount (Record 1)''
               (''VAT amount recalculated: 100 '' @ timesSign @ '' 16% = 16'') ''0'' ''16'',
             amountFixed ''GrandTotal (Record 1)''
               ''Grand total recalculated: 100 + 16 = 116'' ''100'' ''116''],
          originalData = exemptInvoice,
          fixedData =
            JObj [(''TPIN'', JStr ''1234567890''), (''InvoiceNumber'', JStr ''INV-1''),
                  (''InvoiceDate'', JStr ''2025-01-15''), (''Currency'', JStr ''ZMW''),
                  (''VATRate'', JNum 0),
                  (''LineItems'', JArr [JObj [(''Quantity'', JNum 1), (''UnitPrice'', JNum 100),
                                              (''LineTotal'', JNum 100)]]),
                  (''TaxableAmount'', JNum 100), (''VATAmount'', JNum 16),
                  (''GrandTotal'', JNum 116)]\<rparr>"
  by code_simp

text \<open>
  Claim C2 says that the payload passed in is never changed. On the invoice with wrapped
  line items the line total 5 of the payload itself has become 20 after the call,
  because the fixed record was given the line object of the payload, not a copy.
\<close>

theorem wrapped_line_item_changes_payload:
  "map_sum id (\<lambda>res. (originalData res, fixedData res)) (validateAndFix clk wrappedInvoice XML) =
     Inr (JObj [(''InvoiceNumber'', JStr ''INV-1''),
                (''LineItems'',
                 JObj [(''LineItem'', JObj [(''Quantity'', JNum 2), (''UnitPrice'', JNum 10),
                                            (''LineTotal'', JNum 20)])])],
          JObj [(''InvoiceNumber'', JStr ''INV-1''),
                (''LineItems'', JArr [JObj [(''Quantity'', JNum 2), (''UnitPrice'', JNum 10),
                                            (''LineTotal'', JNum 20)]]),
                (''Currency'', JStr ''ZMW''), (''vatRate'', JNum 16)])"
  by code_simp

text \<open>
  Claim C4 says that a correction is written under the key that held the corrected
  value. The currency usd is read from the key currency, the key Currency being present
  and empty; the correction ZMW is written under Currency, and currency keeps usd.
\<close>

theorem currency_written_under_other_alias:
  "map_sum id (\<lambda>res. (fixedData res, filter (\<lambda>i. category i = Currency) (issues res)))
     (validateAndFix clk emptyAliasInvoice JSON) =
     Inr (JObj [(''Currency'', JStr ''ZMW''), (''currency'', JStr ''usd''), (''vatRate'', JNum 16)],
          [\<lparr>severity = Warning, field = ''Currency (Record 1)'',
            message = ''Currency must be ZMW (Zambian Kwacha) per ZRA requirements'',
            originalValue = JStr ''USD'', fixedValue = JStr ''ZMW'',
            autoFixed = True, confidence = High, category = Currency\<rparr>])"
  by code_simp

subsection \<open>Duplicate invoice numbers\<close>

lemma noDuplicate_append [simp]: "noDuplicate (a @ b) \<longleftrightarrow> noDuplicate a \<and> noDuplicate b"
  by (auto simp: noDuplicate_def)

lemma noDuplicate_Nil [simp]: "noDuplicate []"
  by (simp add: noDuplicate_def)








lemma amount_category [simp]:
  "category (amountError a b c) = Amount" "category (amountZero a b c) = Amount"
  "category (amountFixed a b c d) = Amount" "category (lineItemsIssue a b c cat) = cat"
  by (simp_all add: amountError_def amountZero_def amountFixed_def lineItemsIssue_def)


















lemma duplicateIssue_fields [simp]:
  "severity (duplicateIssue j i s) = Error" "category (duplicateIssue j i s) = Duplicate"
  "autoFixed (duplicateIssue j i s) = False"
  "field (duplicateIssue j i s) = recordLoc ''InvoiceNumber'' j"
  by (simp_all add: duplicateIssue_def)





subsection \<open>Taxpayer numbers that are numbers\<close>







lemma link_fields [simp]: "fixedT (link st a b) = fixedT st" "origT (link st a b) = origT st"
  by (simp_all add: link_def)





































text \<open>The TPIN issues and the fixed data of that batch, computed.\<close>

lemma numeric_tpin_example:
  "map_sum id (map (\<lambda>i. (field i, originalValue i, fixedValue i, autoFixed i, severity i))
                 \<circ> filter (\<lambda>i. category i = Tpin) \<circ> issues)
       (validateAndFix exampleClock numericTpinBatch JSON)
     = Inr [(''tpin (Record 2)'', JNum 1234567890, JStr ''1234567890'', True, Warning)]
   \<and> map_sum id (\<lambda>res. map (\<lambda>e. (propOf (recordOf e) ''TPIN'', propOf (recordOf e) ''tpin''))
                              (asList (fixedData res)))
       (validateAndFix exampleClock numericTpinBatch JSON)
     = Inr [(JStr ''1234567890'', JUndefined), (JUndefined, JStr ''1234567890'')]"
  by code_simp

end
